theory Spec2Isabelle
  imports Complex_Main "HOL-Library.Sublist"
begin

section \<open>code\_coverage.py: data model\<close>

text \<open>
  The script drives \<^verbatim>\<open>catkin\<close> over a list of packages, scrapes two coverage
  percentages from the build output and prints a line-count weighted total.

  Conventions of the embedding:
  \<^item> Python \<^verbatim>\<open>float\<close> values are the rationals they denote; binary rounding
    is not part of the model.
  \<^item> Strings are ASCII \<open>char list\<close>s; \<^verbatim>\<open>\d\<close> is the class \<open>0..9\<close>.
  \<^item> Everything written to the terminal and every process started is an
    \<open>event\<close>; a function returns the events it produced, in order, with its result.
  \<^item> A raised exception is the \<open>Inl\<close> of the result.
  \<^item> The external tools (\<^verbatim>\<open>catkin\<close>, \<^verbatim>\<open>cloc\<close>, the file system) are the
    fields of an \<open>env\<close> record.
\<close>

type_synonym pyfloat = rat

text \<open>\<^verbatim>\<open>class Package\<close> (lines 22--32). Every attribute of \<^verbatim>\<open>__init__\<close> is a field.\<close>

record package =
  name :: string
  path :: string
  lineCount :: nat
  hasTestDir :: bool
  coverage_total :: "pyfloat option"
  coverage_lines :: "pyfloat option"
  coverage_functions :: "pyfloat option"
  weight :: "pyfloat option"

text \<open>
  The argument of \<^verbatim>\<open>sys.exit\<close>: a string, so the exit status is 1 and the text goes to
  the error stream. The three texts of the script, with their parameters.
\<close>

datatype exit_message =
    No_coverage_generated          \<comment> \<open>line 184\<close>
  | No_coverage_obtained string    \<comment> \<open>line 248, the package name\<close>
  | Below_threshold int            \<comment> \<open>line 210, \<^verbatim>\<open>round(threshold, 2)\<close> of an \<^verbatim>\<open>int\<close>\<close>

datatype exc =
    Exception_pkg_required         \<comment> \<open>line 60\<close>
  | BrokenRegexException string    \<comment> \<open>lines 94, 101, 121: the regex the message names\<close>
  | PackageNotFoundException       \<comment> \<open>line 158\<close>
  | TestFailedException            \<comment> \<open>line 116\<close>
  | ValueError
  | IndexError
  | TypeError
  | AttributeError
  | ZeroDivisionError
  | SystemExit exit_message

datatype event =
    Print_testing_name string      \<comment> \<open>line 63\<close>
  | Print_testing_obj string       \<comment> \<open>line 72, \<^verbatim>\<open>%s\<close> of the object (here: its name)\<close>
  | Subprocess_run string          \<comment> \<open>line 73\<close>
  | Popen string                   \<comment> \<open>lines 74, 138, 139, 155, 203\<close>
  | Print_no_tests string          \<comment> \<open>line 82\<close>
  | Stdout_write string            \<comment> \<open>line 88\<close>
  | Stderr_tests_failed string     \<comment> \<open>line 115\<close>
  | Print_no_linecount string      \<comment> \<open>line 146\<close>
  | Print_found string string      \<comment> \<open>line 160\<close>
  | Stderr_not_found string        \<comment> \<open>line 180\<close>
  | Print_unavailable string string  \<comment> \<open>line 191\<close>
  | Print_summary string string "pyfloat option" "pyfloat option" "pyfloat option"
                                   \<comment> \<open>line 193\<close>
  | Print_calc string "pyfloat option" nat nat  \<comment> \<open>line 199\<close>
  | Print_total pyfloat            \<comment> \<open>line 202, the rounded total\<close>
  | Print_line string              \<comment> \<open>line 206\<close>
  | Print_passing_over string string  \<comment> \<open>line 250\<close>

type_synonym 'a result = "event list \<times> (exc + 'a)"

text \<open>The external collaborators.\<close>

record env =
  catkin_locate :: "string \<Rightarrow> string"
    \<comment> \<open>the output of \<^verbatim>\<open>catkin locate pkg\<close>\<close>
  cloc_count :: "string \<Rightarrow> nat option"
    \<comment> \<open>the integer after the last comma of the C++ row of \<^verbatim>\<open>cloc\<close>;
        \<open>None\<close> where \<^verbatim>\<open>int\<close> raises \<^verbatim>\<open>ValueError\<close>\<close>
  listdir :: "string \<Rightarrow> (string \<times> bool) list"
    \<comment> \<open>\<^verbatim>\<open>os.listdir\<close> of a directory that exists, each entry with its
        \<^verbatim>\<open>os.path.isdir\<close>\<close>
  proc_stdout :: "string \<Rightarrow> string list"
    \<comment> \<open>the lines a started command writes, each with its line end\<close>

definition emit :: "event list \<Rightarrow> 'a result \<Rightarrow> 'a result" where
  "emit evs r = (evs @ fst r, snd r)"

section \<open>Strings and regular expressions\<close>

definition is_digit :: "char \<Rightarrow> bool" where
  "is_digit c = (c \<in> set ''0123456789'')"

definition digit_val :: "char \<Rightarrow> nat" where
  "digit_val c = of_char c - 48"

definition nat_of_digits :: "string \<Rightarrow> nat" where
  "nat_of_digits ds = foldl (\<lambda>n c. 10 * n + digit_val c) 0 ds"

text \<open>
  \<^verbatim>\<open>float(s)\<close> on the texts \<^verbatim>\<open>re_line_pct\<close> can match: digits, a point, digits.
  Python accepts \<^verbatim>\<open>"85."\<close> and \<^verbatim>\<open>".5"\<close> and raises \<^verbatim>\<open>ValueError\<close> on \<^verbatim>\<open>"."\<close>.
  Other shapes never reach the call and are rejected here.
\<close>

definition py_float :: "string \<Rightarrow> exc + pyfloat" where
  "py_float s =
     (let d1 = takeWhile is_digit s in
      case dropWhile is_digit s of
        [] \<Rightarrow> Inl ValueError
      | c # d2 \<Rightarrow>
          if c = CHR ''.'' \<and> list_all is_digit d2 \<and> \<not> (d1 = [] \<and> d2 = [])
          then Inr (of_nat (nat_of_digits d1) + of_nat (nat_of_digits d2) / 10 ^ length d2)
          else Inl ValueError)"

text \<open>
  \<^verbatim>\<open>re_line_pct = \d*\.\d*(?=%)\<close> tried at the start of \<open>s\<close>. Both digit runs are
  greedy; giving one of them fewer digits leaves a digit where the point or the percent
  sign is required, so only the longest runs can match.
\<close>

definition line_pct_at :: "string \<Rightarrow> string option" where
  "line_pct_at s =
     (let d1 = takeWhile is_digit s in
      case dropWhile is_digit s of
        [] \<Rightarrow> None
      | c # r \<Rightarrow>
          if c = CHR ''.'' then
            (let d2 = takeWhile is_digit r in
             case dropWhile is_digit r of
               [] \<Rightarrow> None
             | p # _ \<Rightarrow> if p = CHR ''%'' then Some (d1 @ ''.'' @ d2) else None)
          else None)"

lemma line_pct_at_length:
  assumes "line_pct_at s = Some m"
  shows "0 < length m \<and> length m < length s"
proof -
  define d1 where "d1 = takeWhile is_digit s"
  define t1 where "t1 = dropWhile is_digit s"
  have s: "length s = length d1 + length t1"
    unfolding d1_def t1_def by (metis length_append takeWhile_dropWhile_id)
  obtain r where t1: "t1 = CHR ''.'' # r"
    using assms unfolding line_pct_at_def Let_def t1_def
    by (cases "dropWhile is_digit s") (auto split: if_splits)
  define d2 where "d2 = takeWhile is_digit r"
  define t2 where "t2 = dropWhile is_digit r"
  have r: "length r = length d2 + length t2"
    unfolding d2_def t2_def by (metis length_append takeWhile_dropWhile_id)
  have "t2 \<noteq> [] \<and> m = d1 @ ''.'' @ d2"
    using assms t1 unfolding line_pct_at_def Let_def t1_def t2_def d1_def d2_def
    by (cases "dropWhile is_digit r") (auto split: if_splits)
  then have "0 < length t2" and "length m = length d1 + 1 + length d2" by simp_all
  then show ?thesis using s r t1 by simp
qed

text \<open>\<^verbatim>\<open>re.findall(re_line_pct, line)\<close>: the matches from left to right, not overlapping.\<close>

function findall_line_pct :: "string \<Rightarrow> string list" where
  "findall_line_pct s =
     (case line_pct_at s of
        Some m \<Rightarrow> m # findall_line_pct (drop (length m) s)
      | None \<Rightarrow> (case s of [] \<Rightarrow> [] | _ # t \<Rightarrow> findall_line_pct t))"
  by pat_completeness auto
termination
proof (relation "measure length")
  show "wf (measure length)" by simp
next
  fix s m
  assume "line_pct_at s = Some m"
  then have "0 < length m \<and> length m < length s" by (rule line_pct_at_length)
  then have "length s - length m < length s" by linarith
  then show "(drop (length m) s, s) \<in> measure length" by simp
next
  fix s :: string and c t
  assume "s = c # t"
  then show "(t, s) \<in> measure length" by simp
qed

declare findall_line_pct.simps [simp del]

text \<open>\<^verbatim>\<open>re.match(re_coverage_pct, line)\<close>: the line starts with the header text.\<close>

definition match_coverage_pct :: "string \<Rightarrow> bool" where
  "match_coverage_pct line = prefix ''Overall coverage rate:'' line"

text \<open>
  \<^verbatim>\<open>re_failed_test = (?<=Failed: )[0-9]*(?= packages failed.)\<close> tried at position
  \<open>i\<close> of the line. The look-behind needs the eight characters before \<open>i\<close>; the
  final \<^verbatim>\<open>.\<close> is any character but a line end. The digit run is the longest one, for
  the reason given for \<open>line_pct_at\<close>.
\<close>

definition failed_test_at :: "string \<Rightarrow> nat \<Rightarrow> string option" where
  "failed_test_at line i =
     (if 8 \<le> i \<and> i \<le> length line \<and> take 8 (drop (i - 8) line) = ''Failed: '' then
        (let ds = takeWhile is_digit (drop i line);
             r = dropWhile is_digit (drop i line) in
         if take 16 r = '' packages failed'' \<and>
            (case drop 16 r of [] \<Rightarrow> False | c # _ \<Rightarrow> c \<noteq> CHR ''\<newline>'')
         then Some ds else None)
      else None)"

text \<open>\<^verbatim>\<open>re.match\<close> tries position 0 only (\<^verbatim>\<open>re.search\<close> would try every position).\<close>

definition match_failed_test :: "string \<Rightarrow> string option" where
  "match_failed_test line = failed_test_at line 0"

text \<open>\<^verbatim>\<open>xs[i]\<close> for \<open>i \<ge> 0\<close>.\<close>

definition py_index :: "'a list \<Rightarrow> nat \<Rightarrow> exc + 'a" where
  "py_index xs i = (if i < length xs then Inr (xs ! i) else Inl IndexError)"

text \<open>\<^verbatim>\<open>statistics.mean\<close> of a non-empty list.\<close>

definition mean :: "pyfloat list \<Rightarrow> pyfloat" where
  "mean xs = sum_list xs / of_nat (length xs)"

text \<open>\<^verbatim>\<open>sep.join(xs)\<close>.\<close>

fun join :: "string \<Rightarrow> string list \<Rightarrow> string" where
  "join sep [] = []"
| "join sep [x] = x"
| "join sep (x # y # ys) = x @ sep @ join sep (y # ys)"

definition py_lower :: "char \<Rightarrow> char" where
  "py_lower c = (if 65 \<le> (of_char c :: nat) \<and> (of_char c :: nat) \<le> 90
                 then char_of (of_char c + (32 :: nat)) else c)"

section \<open>test\_package (lines 34--128)\<close>

text \<open>
  The function \<^verbatim>\<open>hasTestDir(path)\<close>, lines 130--134 (the name \<open>hasTestDir\<close> is the
  attribute of the package).
\<close>

definition hasTestDir_path :: "env \<Rightarrow> string \<Rightarrow> bool" where
  "hasTestDir_path e p =
     list_ex (\<lambda>(fname, isdir). isdir \<and> map py_lower fname = ''test'') (listdir e p)"

text \<open>The local variables of the loop over \<^verbatim>\<open>proc.stdout\<close>.\<close>

record scan_state =
  pcts :: "pyfloat list"
  get_pkg_percentages :: bool
  line_coverage :: pyfloat
  function_coverage :: pyfloat

definition scan_init :: scan_state where
  "scan_init = \<lparr>pcts = [], get_pkg_percentages = False, line_coverage = 0,
                 function_coverage = 0\<rparr>"

text \<open>Lines 90--105: the branch taken while \<^verbatim>\<open>get_pkg_percentages\<close> holds.\<close>

definition grab :: "scan_state \<Rightarrow> string \<Rightarrow> exc + scan_state" where
  "grab st line =
     (if get_pkg_percentages st then
        (if pcts st = [] then
           (case findall_line_pct line of
              [] \<Rightarrow> Inl (BrokenRegexException ''re_line_pct'')
            | m # _ \<Rightarrow>
                (case py_float m of
                   Inl e \<Rightarrow> Inl e
                 | Inr val \<Rightarrow> Inr (st\<lparr>line_coverage := val, pcts := pcts st @ [val]\<rparr>)))
         else
           (case findall_line_pct line of
              [] \<Rightarrow> Inl (BrokenRegexException ''re_line_pct'')
            | m # _ \<Rightarrow>
                (case py_float m of
                   Inl e \<Rightarrow> Inl e
                 | Inr val \<Rightarrow>
                     Inr (st\<lparr>function_coverage := val, pcts := pcts st @ [val],
                             get_pkg_percentages := False\<rparr>))))
      else Inr st)"

text \<open>
  Lines 110--116. \<^verbatim>\<open>num_failed_tests\<close> is the integer 0 or, after a match, the match
  object itself; comparing a match object with 0 raises \<^verbatim>\<open>TypeError\<close>.
\<close>

datatype num_failed = Int_val int | Match_obj string

definition gt_zero :: "num_failed \<Rightarrow> exc + bool" where
  "gt_zero v = (case v of Int_val n \<Rightarrow> Inr (0 < n) | Match_obj _ \<Rightarrow> Inl TypeError)"

definition check_failed :: "string \<Rightarrow> string \<Rightarrow> unit result" where
  "check_failed pkg_name line =
     (let num_failed_tests =
            (case match_failed_test line of None \<Rightarrow> Int_val 0 | Some m \<Rightarrow> Match_obj m) in
      case gt_zero num_failed_tests of
        Inl e \<Rightarrow> ([], Inl e)
      | Inr True \<Rightarrow> ([Stderr_tests_failed pkg_name], Inl TestFailedException)
      | Inr False \<Rightarrow> ([], Inr ()))"

text \<open>One pass of the loop body, lines 87--116.\<close>

definition scan_line :: "bool \<Rightarrow> string \<Rightarrow> scan_state \<Rightarrow> string \<Rightarrow> scan_state result" where
  "scan_line suppress_catkin_output pkg_name st line =
     emit (if suppress_catkin_output then [] else [Stdout_write line])
       (case grab st line of
          Inl e \<Rightarrow> ([], Inl e)
        | Inr st1 \<Rightarrow>
            (let st2 = (if match_coverage_pct line
                        then st1\<lparr>get_pkg_percentages := True\<rparr> else st1) in
             case check_failed pkg_name line of
               (evs, Inl e) \<Rightarrow> (evs, Inl e)
             | (evs, Inr _) \<Rightarrow> (evs, Inr st2)))"

text \<open>The loop of line 85.\<close>

fun scan :: "bool \<Rightarrow> string \<Rightarrow> scan_state \<Rightarrow> string list \<Rightarrow> scan_state result" where
  "scan quiet pkg_name st [] = ([], Inr st)"
| "scan quiet pkg_name st (line # rest) =
     (case scan_line quiet pkg_name st line of
        (evs, Inl e) \<Rightarrow> (evs, Inl e)
      | (evs, Inr st') \<Rightarrow> emit evs (scan quiet pkg_name st' rest))"

definition test_cmd :: "string \<Rightarrow> string list \<Rightarrow> string" where
  "test_cmd pkg_name extra_args =
     ''catkin build '' @ pkg_name @ '' -v --no-status --no-deps '' @ join '' '' extra_args @
     '' --catkin-make-args '' @ pkg_name @ ''_coverage_report''"

definition config_cmd :: "string \<Rightarrow> string" where
  "config_cmd cmake_build_type =
     ''catkin config -DENABLE_COVERAGE_TESTING=ON -DCMAKE_BUILD_TYPE='' @ cmake_build_type"

text \<open>Lines 120--128, after the loop.\<close>

definition finish :: "package \<Rightarrow> scan_state \<Rightarrow> exc + (pyfloat \<times> package)" where
  "finish pkg st =
     (if pcts st = [] then Inl (BrokenRegexException ''re_coverage_pct'')
      else
        (case py_index (pcts st) 0 of
           Inl e \<Rightarrow> Inl e
         | Inr a \<Rightarrow>
             (case py_index (pcts st) 1 of
                Inl e \<Rightarrow> Inl e
              | Inr b \<Rightarrow>
                  (let total = mean [a, b] in
                   Inr (total,
                        pkg\<lparr>coverage_lines := Some (line_coverage st),
                            coverage_functions := Some (function_coverage st),
                            coverage_total := Some total\<rparr>)))))"

text \<open>
  \<^verbatim>\<open>test_package\<close>. The result is the returned number with the package as the call
  leaves it. \<open>None\<close> for \<open>pkg\<close> is a falsy argument.
\<close>

definition test_package ::
  "env \<Rightarrow> package option \<Rightarrow> string list \<Rightarrow> string \<Rightarrow> bool \<Rightarrow> bool \<Rightarrow> (pyfloat \<times> package) result"
where
  "test_package e pkg_opt extra_args cmake_build_type suppress_catkin_output verbose =
     (case pkg_opt of
        None \<Rightarrow> ([], Inl Exception_pkg_required)
      | Some pkg \<Rightarrow>
          emit ((if verbose then [Print_testing_name (name pkg)] else []) @
                [Print_testing_obj (name pkg),
                 Subprocess_run (config_cmd cmake_build_type),
                 Popen (test_cmd (name pkg) extra_args)])
            (if \<not> hasTestDir_path e (path pkg)
             then ([Print_no_tests (name pkg)], Inr (0, pkg))
             else
               (case scan suppress_catkin_output (name pkg) scan_init
                       (proc_stdout e (test_cmd (name pkg) extra_args)) of
                  (evs, Inl ex) \<Rightarrow> (evs, Inl ex)
                | (evs, Inr st) \<Rightarrow> (evs, finish pkg st))))"

section \<open>Resolving packages (lines 136--167)\<close>

definition bind_r :: "'a result \<Rightarrow> ('a \<Rightarrow> 'b result) \<Rightarrow> 'b result" where
  "bind_r r f = (case r of (evs, Inl ex) \<Rightarrow> (evs, Inl ex) | (evs, Inr x) \<Rightarrow> emit evs (f x))"

text \<open>The characters \<^verbatim>\<open>str.rstrip()\<close> removes, among the ASCII ones.\<close>

definition is_space :: "char \<Rightarrow> bool" where
  "is_space c = (c \<in> set [CHR '' '', CHR 0x09, CHR ''\<newline>'', CHR 0x0B, CHR 0x0C, CHR 0x0D,
                           CHR 0x1C, CHR 0x1D, CHR 0x1E, CHR 0x1F])"

definition rstrip :: "string \<Rightarrow> string" where
  "rstrip s = rev (dropWhile is_space (rev s))"

text \<open>
  \<^verbatim>\<open>count_lines_of_code\<close>, lines 136--147. The tools are installed: the
  \<^verbatim>\<open>FileNotFoundError\<close> handlers of lines 143 and 162 are not part of the model.
\<close>

definition count_lines_of_code :: "env \<Rightarrow> string \<Rightarrow> nat result" where
  "count_lines_of_code e p =
     emit [Popen (''cloc '' @ p @ '' --quiet --csv''),
           Popen (''grep -i '' @ [CHR 0x27] @ '',C++'' @ [CHR 0x27])]
       (case cloc_count e p of
          Some n \<Rightarrow> ([], Inr n)
        | None \<Rightarrow> ([Print_no_linecount p], Inr 0))"

text \<open>\<^verbatim>\<open>get_path\<close>, lines 149--163.\<close>

definition get_path :: "env \<Rightarrow> string \<Rightarrow> bool \<Rightarrow> string result" where
  "get_path e pkg verbose =
     emit [Popen (''catkin locate '' @ pkg)]
       (let p = catkin_locate e pkg in
        if prefix ''ERROR'' p then ([], Inl PackageNotFoundException)
        else ((if verbose then [Print_found pkg (rstrip p)] else []), Inr (rstrip p)))"

text \<open>
  \<^verbatim>\<open>Package.__init__\<close>, lines 24--32, called with a path string (as
  \<^verbatim>\<open>get_package\<close> does). An empty path is falsy, so \<^verbatim>\<open>self.path\<close> is looked up again;
  the line count and the test-directory flag use the argument.
\<close>

definition Package_init :: "env \<Rightarrow> string \<Rightarrow> string \<Rightarrow> package result" where
  "Package_init e nm p =
     bind_r (if p \<noteq> [] then ([], Inr p) else get_path e nm True) (\<lambda>self_path.
     bind_r (count_lines_of_code e p) (\<lambda>lc.
       ([], Inr \<lparr>name = nm, path = self_path, lineCount = lc,
                 hasTestDir = hasTestDir_path e p, coverage_total = None,
                 coverage_lines = None, coverage_functions = None, weight = None\<rparr>)))"

text \<open>\<^verbatim>\<open>get_package\<close>, lines 165--167.\<close>

definition get_package :: "env \<Rightarrow> string \<Rightarrow> bool \<Rightarrow> package result" where
  "get_package e pkg verbose = bind_r (get_path e pkg verbose) (\<lambda>p. Package_init e pkg p)"

section \<open>print\_results (lines 169--210)\<close>

text \<open>
  The elements of the \<^verbatim>\<open>packages\<close> list are Python objects: \<^verbatim>\<open>Package\<close> instances
  (what the docstring asks for and the main program passes) or anything else a caller
  puts there; strings are the other kind that matters, as \<^verbatim>\<open>unfound\<close> holds names.
\<close>

datatype pyobj = Pkg package | Str string

text \<open>
  \<^verbatim>\<open>x == s\<close> for a string \<open>s\<close>. \<^verbatim>\<open>Package\<close> defines no \<^verbatim>\<open>__eq__\<close>, so an
  instance equals only itself and never a string.
\<close>

fun eq_str :: "pyobj \<Rightarrow> string \<Rightarrow> bool" where
  "eq_str (Str t) s = (t = s)"
| "eq_str (Pkg p) s = False"

text \<open>\<^verbatim>\<open>list.remove(s)\<close>: drops the first equal element, \<^verbatim>\<open>ValueError\<close> if none.\<close>

fun list_remove :: "pyobj list \<Rightarrow> string \<Rightarrow> exc + pyobj list" where
  "list_remove [] s = Inl ValueError"
| "list_remove (x # xs) s =
     (if eq_str x s then Inr xs
      else (case list_remove xs s of Inl ex \<Rightarrow> Inl ex | Inr ys \<Rightarrow> Inr (x # ys)))"

text \<open>Lines 179--181.\<close>

fun remove_unfound :: "string list \<Rightarrow> pyobj list \<Rightarrow> pyobj list result" where
  "remove_unfound [] packages = ([], Inr packages)"
| "remove_unfound (pkg # rest) packages =
     emit [Stderr_not_found pkg]
       (case list_remove packages pkg of
          Inl ex \<Rightarrow> ([], Inl ex)
        | Inr packages' \<Rightarrow> remove_unfound rest packages')"

text \<open>The truth value of \<^verbatim>\<open>pkg.coverage_total\<close>: \<^verbatim>\<open>None\<close> and \<^verbatim>\<open>0.0\<close> are falsy.\<close>

definition truthy :: "pyfloat option \<Rightarrow> bool" where
  "truthy v = (case v of None \<Rightarrow> False | Some x \<Rightarrow> x \<noteq> 0)"

text \<open>
  Lines 189--195, with \<^verbatim>\<open>totallines\<close> and \<^verbatim>\<open>valid_packages\<close> as accumulators.
  A string has no attribute \<^verbatim>\<open>coverage_total\<close>.
\<close>

fun summarize :: "pyobj list \<Rightarrow> nat \<Rightarrow> package list \<Rightarrow> (nat \<times> package list) result" where
  "summarize [] totallines valid_packages = ([], Inr (totallines, valid_packages))"
| "summarize (Str s # rest) totallines valid_packages = ([], Inl AttributeError)"
| "summarize (Pkg pkg # rest) totallines valid_packages =
     (if \<not> truthy (coverage_total pkg) then
        emit [Print_unavailable (name pkg) (path pkg)]
          (summarize rest totallines valid_packages)
      else
        emit [Print_summary (name pkg) (path pkg) (coverage_lines pkg)
                (coverage_functions pkg) (coverage_total pkg)]
          (summarize rest (totallines + lineCount pkg) (valid_packages @ [pkg])))"

text \<open>\<^verbatim>\<open>a / b\<close> on floats.\<close>

definition truediv :: "pyfloat \<Rightarrow> pyfloat \<Rightarrow> exc + pyfloat" where
  "truediv a b = (if b = 0 then Inl ZeroDivisionError else Inr (a / b))"

text \<open>
  Lines 197--200, with \<^verbatim>\<open>total_weighted_coverage\<close> as accumulator. The quotient is
  evaluated before \<^verbatim>\<open>float(pkg.coverage_total)\<close>, which raises \<^verbatim>\<open>TypeError\<close> on
  \<^verbatim>\<open>None\<close>.
\<close>

fun weigh :: "bool \<Rightarrow> nat \<Rightarrow> package list \<Rightarrow> pyfloat \<Rightarrow> pyfloat result" where
  "weigh verbose totallines [] total_weighted_coverage = ([], Inr total_weighted_coverage)"
| "weigh verbose totallines (pkg # rest) total_weighted_coverage =
     emit (if verbose
           then [Print_calc (name pkg) (coverage_total pkg) (lineCount pkg) totallines]
           else [])
       (case truediv (of_nat (lineCount pkg)) (of_nat totallines) of
          Inl ex \<Rightarrow> ([], Inl ex)
        | Inr w \<Rightarrow>
            (case coverage_total pkg of
               None \<Rightarrow> ([], Inl TypeError)
             | Some c \<Rightarrow> weigh verbose totallines rest (total_weighted_coverage + w * c)))"

text \<open>Lines 186--200: both loops, from the list to \<^verbatim>\<open>total_weighted_coverage\<close>.\<close>

definition weighted_total :: "bool \<Rightarrow> pyobj list \<Rightarrow> pyfloat result" where
  "weighted_total verbose packages =
     bind_r (summarize packages 0 []) (\<lambda>(totallines, valid_packages).
       weigh verbose totallines valid_packages 0)"

text \<open>\<^verbatim>\<open>round(x, 2)\<close>: to the nearest hundredth, ties to the even one.\<close>

definition round2 :: "pyfloat \<Rightarrow> pyfloat" where
  "round2 x =
     (let f = \<lfloor>x * 100\<rfloor>; r = x * 100 - of_int f in
      if r < 1 / 2 then of_int f / 100
      else if 1 / 2 < r then of_int (f + 1) / 100
      else if even f then of_int f / 100 else of_int (f + 1) / 100)"

text \<open>Lines 209--210. \<^verbatim>\<open>threshold\<close> is \<^verbatim>\<open>None\<close> or an \<^verbatim>\<open>int\<close>; \<^verbatim>\<open>None\<close> and 0 are falsy.\<close>

definition check_threshold :: "int option \<Rightarrow> pyfloat \<Rightarrow> unit result" where
  "check_threshold threshold total_weighted_coverage =
     (case threshold of
        None \<Rightarrow> ([], Inr ())
      | Some t \<Rightarrow>
          if t \<noteq> 0 \<and> total_weighted_coverage < of_int t
          then ([], Inl (SystemExit (Below_threshold t)))
          else ([], Inr ()))"

text \<open>
  \<^verbatim>\<open>print_results\<close>. \<^verbatim>\<open>unfound\<close> defaults to \<^verbatim>\<open>None\<close>, which the first loop cannot
  iterate; \<^verbatim>\<open>failed\<close> and \<^verbatim>\<open>summaries\<close> are never read.
\<close>

definition print_results ::
  "env \<Rightarrow> pyobj list \<Rightarrow> string list option \<Rightarrow> string list option \<Rightarrow> int option \<Rightarrow> bool \<Rightarrow> bool
     \<Rightarrow> unit result"
where
  "print_results e packages unfound failed threshold verbose summaries =
     (case unfound of
        None \<Rightarrow> ([], Inl TypeError)
      | Some names \<Rightarrow>
          bind_r (remove_unfound names packages) (\<lambda>packages'.
            if packages' = [] then ([], Inl (SystemExit No_coverage_generated))
            else
              bind_r (weighted_total verbose packages') (\<lambda>total_weighted_coverage.
                emit ([Print_total (round2 total_weighted_coverage),
                       Popen ''catkin_test_results''] @
                      (if verbose then map Print_line (proc_stdout e ''catkin_test_results'')
                       else []))
                  (check_threshold threshold total_weighted_coverage))))"

section \<open>The main program (lines 212--255)\<close>

record args =
  args_quiet :: bool
  args_verbose :: "bool option"
  args_summary :: bool
  args_threshold :: "int option"
  args_packages :: "string list"

text \<open>\<^verbatim>\<open>s.split(" ")\<close>.\<close>

fun split_space :: "string \<Rightarrow> string list" where
  "split_space [] = [[]]"
| "split_space (c # cs) =
     (if c = CHR '' '' then [] # split_space cs
      else (case split_space cs of [] \<Rightarrow> [[c]] | w # ws \<Rightarrow> (c # w) # ws))"

text \<open>Lines 237--241.\<close>

fun resolve_loop ::
  "env \<Rightarrow> bool \<Rightarrow> string list \<Rightarrow> package list \<Rightarrow> string list
     \<Rightarrow> (package list \<times> string list) result"
where
  "resolve_loop e verbose [] test_packages unfound_packages =
     ([], Inr (test_packages, unfound_packages))"
| "resolve_loop e verbose (pkg # rest) test_packages unfound_packages =
     (case get_package e pkg verbose of
        (evs, Inr p) \<Rightarrow>
          emit evs (resolve_loop e verbose rest (test_packages @ [p]) unfound_packages)
      | (evs, Inl ex) \<Rightarrow>
          if ex = PackageNotFoundException
          then emit evs (resolve_loop e verbose rest test_packages (unfound_packages @ [pkg]))
          else (evs, Inl ex))"

text \<open>
  Lines 243--253. \<^verbatim>\<open>test_package\<close> updates the package in place, so the list holds
  the updated package afterwards; the first accumulator is the part of
  \<^verbatim>\<open>test_packages\<close> already visited.
\<close>

fun test_loop ::
  "env \<Rightarrow> bool \<Rightarrow> bool \<Rightarrow> package list \<Rightarrow> package list \<Rightarrow> string list
     \<Rightarrow> (package list \<times> string list) result"
where
  "test_loop e quiet verbose [] visited failed_packages = ([], Inr (visited, failed_packages))"
| "test_loop e quiet verbose (pkg # rest) visited failed_packages =
     (if hasTestDir pkg then
        (case test_package e (Some pkg) [''--force-color''] ''Debug'' quiet verbose of
           (evs, Inr (coverage, pkg')) \<Rightarrow>
             if coverage = 0
             then (evs, Inl (SystemExit (No_coverage_obtained (name pkg))))
             else emit evs (test_loop e quiet verbose rest (visited @ [pkg']) failed_packages)
         | (evs, Inl ex) \<Rightarrow>
             if ex = TestFailedException
             then emit evs (test_loop e quiet verbose rest (visited @ [pkg])
                              (failed_packages @ [name pkg]))
             else (evs, Inl ex))
      else
        emit [Print_passing_over (name pkg) (path pkg)]
          (test_loop e quiet verbose rest (visited @ [pkg]) failed_packages))"

definition main :: "env \<Rightarrow> args \<Rightarrow> unit result" where
  "main e a =
     (let packages = (case args_packages a of [p] \<Rightarrow> split_space p | ps \<Rightarrow> ps);
          verbose = (if args_quiet a then False
                     else (case args_verbose a of None \<Rightarrow> False | Some v \<Rightarrow> v)) in
      bind_r (resolve_loop e verbose packages [] []) (\<lambda>(test_packages, unfound_packages).
      bind_r (test_loop e (args_quiet a) verbose test_packages [] [])
        (\<lambda>(test_packages', failed_packages).
           print_results e (map Pkg test_packages') (Some unfound_packages)
             (Some failed_packages) (args_threshold a) False True)))"

section \<open>Recorded runs\<close>

text \<open>
  Concrete packages, environments and output streams, used to run the definitions above.
  \<open>env_run ls\<close> is a workspace where every package is found, has a \<^verbatim>\<open>test\<close>
  directory and 100 lines of code, and where the build writes the lines \<open>ls\<close>.
\<close>

definition env_run :: "string list \<Rightarrow> env" where
  "env_run ls =
     \<lparr>catkin_locate = (\<lambda>n. ''/ws/src/'' @ n @ ''\<newline>''),
      cloc_count = (\<lambda>_. Some 100),
      listdir = (\<lambda>_. [(''src'', True), (''test'', True)]),
      proc_stdout = (\<lambda>cmd. if cmd = ''catkin_test_results'' then [] else ls)\<rparr>"

definition pkg_a :: package where
  "pkg_a = \<lparr>name = ''a'', path = ''/ws/src/a'', lineCount = 100, hasTestDir = True,
            coverage_total = None, coverage_lines = None, coverage_functions = None,
            weight = None\<rparr>"

definition stream_ok :: "string list" where
  "stream_ok =
     [''Overall coverage rate:\<newline>'',
      ''  lines......: 85.0% (17 of 20 lines)\<newline>'',
      ''  functions..: 90.0% (9 of 10 functions)\<newline>'']"

text \<open>The package \<open>a\<close> after a run over \<open>stream_ok\<close>.\<close>

definition pkg_a_tested :: package where
  "pkg_a_tested = pkg_a\<lparr>coverage_lines := Some 85, coverage_functions := Some 90,
                        coverage_total := Some (175 / 2)\<rparr>"

text \<open>A complete coverage block followed by the line that reports one failed package.\<close>

definition stream_failed :: "string list" where
  "stream_failed = stream_ok @ [''Failed: 1 packages failed.\<newline>'']"

text \<open>The header and a single percentage line.\<close>

definition stream_one :: "string list" where
  "stream_one =
     [''Overall coverage rate:\<newline>'',
      ''  lines......: 85.0% (17 of 20 lines)\<newline>'']"

text \<open>A complete coverage block, then the header again and one more percentage line.\<close>

definition stream_repeat :: "string list" where
  "stream_repeat =
     [''Overall coverage rate:\<newline>'',
      ''  lines......: 10.0% (1 of 10 lines)\<newline>'',
      ''  functions..: 20.0% (1 of 5 functions)\<newline>'',
      ''Overall coverage rate:\<newline>'',
      ''  lines......: 30.0% (3 of 10 lines)\<newline>'']"

text \<open>Both percentages are zero.\<close>

definition stream_zero :: "string list" where
  "stream_zero =
     [''Overall coverage rate:\<newline>'',
      ''  lines......: 0.0% (0 of 20 lines)\<newline>'',
      ''  functions..: 0.0% (0 of 10 functions)\<newline>'']"

definition pkg_a_zero :: package where
  "pkg_a_zero = pkg_a\<lparr>coverage_lines := Some 0, coverage_functions := Some 0,
                      coverage_total := Some 0\<rparr>"

text \<open>A workspace whose package directories hold no \<^verbatim>\<open>test\<close> directory.\<close>

definition env_no_tests :: env where
  "env_no_tests =
     (env_run stream_ok)\<lparr>listdir := (\<lambda>_. [(''src'', True), (''CMakeLists.txt'', False)])\<rparr>"

definition pkg_no_tests :: package where
  "pkg_no_tests = pkg_a\<lparr>hasTestDir := False\<rparr>"

text \<open>A workspace where \<^verbatim>\<open>catkin locate b\<close> reports an error.\<close>

definition env_b_unfound :: env where
  "env_b_unfound =
     (env_run stream_ok)\<lparr>catkin_locate :=
        (\<lambda>n. if n = ''b'' then ''ERROR: Could not find a package named b''
             else ''/ws/src/'' @ n @ ''\<newline>'')\<rparr>"

definition args_a_b :: args where
  "args_a_b = \<lparr>args_quiet = True, args_verbose = None, args_summary = False,
               args_threshold = None, args_packages = [''a'', ''b'']\<rparr>"

definition args_a :: args where
  "args_a = \<lparr>args_quiet = True, args_verbose = None, args_summary = False,
             args_threshold = None, args_packages = [''a'']\<rparr>"

text \<open>A tested package for which \<^verbatim>\<open>cloc\<close> gave no C++ line count.\<close>

definition pkg_no_lines :: package where
  "pkg_no_lines = pkg_a_tested\<lparr>lineCount := 0\<rparr>"

text \<open>The two packages of the weighted-total example: 100 lines at 80\%, 300 lines at 40\%.\<close>

definition pkg_100_80 :: package where
  "pkg_100_80 = \<lparr>name = ''p'', path = ''/ws/src/p'', lineCount = 100, hasTestDir = True,
                 coverage_total = Some 80, coverage_lines = Some 70,
                 coverage_functions = Some 90, weight = None\<rparr>"

definition pkg_300_40 :: package where
  "pkg_300_40 = \<lparr>name = ''q'', path = ''/ws/src/q'', lineCount = 300, hasTestDir = True,
                 coverage_total = Some 40, coverage_lines = Some 30,
                 coverage_functions = Some 50, weight = None\<rparr>"


definition pkg_100_50 :: package where
  "pkg_100_50 = \<lparr>name = ''h'', path = ''/ws/src/h'', lineCount = 100, hasTestDir = True,
                 coverage_total = Some 50, coverage_lines = Some 40,
                 coverage_functions = Some 60, weight = None\<rparr>"

section \<open>Predicates and formulas of the statements\<close>


fun is_Pkg :: "pyobj \<Rightarrow> bool" where
  "is_Pkg (Pkg p) = True"
| "is_Pkg (Str s) = False"


definition cov :: "package \<Rightarrow> pyfloat" where
  "cov p = (case coverage_total p of None \<Rightarrow> 0 | Some c \<Rightarrow> c)"



text \<open>A percentage is not negative.\<close>

fun nonneg_coverage :: "pyobj \<Rightarrow> bool" where
  "nonneg_coverage (Pkg p) = (0 \<le> cov p)"
| "nonneg_coverage (Str s) = True"

section \<open>Results and events\<close>

lemma snd_emit: "snd (emit evs r) = snd r"
  by (simp add: emit_def)

lemma fst_emit: "fst (emit evs r) = evs @ fst r"
  by (simp add: emit_def)

section \<open>The parser: the mean of the two collected values\<close>








section \<open>The parser: which exceptions it can raise\<close>

text \<open>
  The look-behind of \<^verbatim>\<open>re_failed_test\<close> needs eight characters before the position
  where the match starts, and \<^verbatim>\<open>re.match\<close> starts at position 0.
\<close>

lemma match_failed_test_None: "match_failed_test line = None"
  by (simp add: match_failed_test_def failed_test_at_def)

lemma check_failed_passes: "check_failed nm line = ([], Inr ())"
  by (simp add: check_failed_def match_failed_test_None gt_zero_def)

lemma py_float_error: "py_float m = Inl ex \<Longrightarrow> ex = ValueError"
  by (auto simp: py_float_def Let_def split: list.splits if_splits)

lemma grab_error:
  "grab st line = Inl ex \<Longrightarrow> ex = BrokenRegexException ''re_line_pct'' \<or> ex = ValueError"
  by (auto simp: grab_def split: if_splits list.splits sum.splits dest: py_float_error)

lemma scan_line_error:
  assumes "snd (scan_line quiet nm st line) = Inl ex"
  shows "ex = BrokenRegexException ''re_line_pct'' \<or> ex = ValueError"
proof (cases "grab st line")
  case (Inl ex')
  then have "ex = ex'" using assms by (simp add: scan_line_def snd_emit)
  then show ?thesis using Inl grab_error by blast
next
  case (Inr st1)
  then show ?thesis using assms
    by (simp add: scan_line_def snd_emit check_failed_passes Let_def)
qed

lemma scan_error:
  "snd (scan quiet nm st ls) = Inl ex \<Longrightarrow>
     ex = BrokenRegexException ''re_line_pct'' \<or> ex = ValueError"
proof (induction ls arbitrary: st)
  case Nil
  then show ?case by simp
next
  case (Cons l ls)
  obtain e1 r1 where sl: "scan_line quiet nm st l = (e1, r1)"
    by (cases "scan_line quiet nm st l")
  show ?case
  proof (cases r1)
    case (Inl ex')
    then have "snd (scan_line quiet nm st l) = Inl ex" using Cons.prems sl by simp
    then show ?thesis by (rule scan_line_error)
  next
    case (Inr st1)
    then have "snd (scan quiet nm st1 ls) = Inl ex" using Cons.prems sl by (simp add: snd_emit)
    then show ?thesis by (rule Cons.IH)
  qed
qed

lemma finish_error:
  "finish pkg st = Inl ex \<Longrightarrow>
     ex = BrokenRegexException ''re_coverage_pct'' \<or> ex = IndexError"
  by (auto simp: finish_def py_index_def Let_def split: if_splits)

text \<open>No run of \<^verbatim>\<open>test_package\<close> raises \<^verbatim>\<open>TestFailedException\<close>.\<close>

lemma test_package_never_TestFailed:
  "snd (test_package e pkg_opt extra_args cmake_build_type quiet verbose)
     \<noteq> Inl TestFailedException"
proof (cases pkg_opt)
  case None
  then show ?thesis by (simp add: test_package_def)
next
  case (Some pkg)
  show ?thesis
  proof (cases "hasTestDir_path e (path pkg)")
    case False
    with Some show ?thesis by (simp add: test_package_def snd_emit)
  next
    case True
    let ?run = "scan quiet (name pkg) scan_init (proc_stdout e (test_cmd (name pkg) extra_args))"
    show ?thesis
    proof (cases "snd ?run")
      case (Inl ex)
      then have "ex \<noteq> TestFailedException" using scan_error by fastforce
      moreover have
        "snd (test_package e pkg_opt extra_args cmake_build_type quiet verbose) = Inl ex"
        using Some True Inl by (cases ?run) (simp add: test_package_def snd_emit)
      ultimately show ?thesis by simp
    next
      case (Inr st)
      then have
        "snd (test_package e pkg_opt extra_args cmake_build_type quiet verbose) = finish pkg st"
        using Some True by (cases ?run) (simp add: test_package_def snd_emit)
      then show ?thesis using finish_error [of pkg st TestFailedException] by auto
    qed
  qed
qed

text \<open>
  C2. The claim: a line with the failure-count marker and a count above zero makes the
  parser fail with \<^verbatim>\<open>TestFailedException\<close> on that line. The code at the stream
  \<open>stream_failed\<close>, whose last line is \<^verbatim>\<open>Failed: 1 packages failed.\<close>: the pattern
  does occur in that line (at position 8, capturing \<^verbatim>\<open>1\<close>), \<^verbatim>\<open>re.match\<close> does not find
  it, and \<^verbatim>\<open>test_package\<close> returns the coverage 87.5 as if no test had failed.
\<close>

theorem failure_marker_not_detected:
  "failed_test_at ''Failed: 1 packages failed.\<newline>'' 8 = Some ''1'' \<and>
   match_failed_test ''Failed: 1 packages failed.\<newline>'' = None \<and>
   snd (test_package (env_run stream_failed) (Some pkg_a) [''--force-color''] ''Debug''
          True False)
     = Inr (175 / 2, pkg_a_tested)"
  by code_simp

text \<open>
  Where \<^verbatim>\<open>BrokenRegexException\<close> is raised: on a line with no percentage while
  collecting, and at the end of a stream that never showed the header.
\<close>

lemma grab_no_match:
  "get_pkg_percentages st \<Longrightarrow> findall_line_pct line = [] \<Longrightarrow>
     grab st line = Inl (BrokenRegexException ''re_line_pct'')"
  by (simp add: grab_def)

lemma scan_line_no_header:
  assumes "\<not> get_pkg_percentages st" and "\<not> match_coverage_pct line"
  shows "snd (scan_line quiet nm st line) = Inr st"
  using assms by (simp add: scan_line_def grab_def snd_emit check_failed_passes)

lemma scan_no_header:
  "\<not> get_pkg_percentages st \<Longrightarrow> list_all (\<lambda>l. \<not> match_coverage_pct l) ls \<Longrightarrow>
     snd (scan quiet nm st ls) = Inr st"
proof (induction ls)
  case Nil
  then show ?case by simp
next
  case (Cons l ls)
  have "snd (scan_line quiet nm st l) = Inr st"
    using Cons.prems by (simp add: scan_line_no_header)
  then obtain e1 where "scan_line quiet nm st l = (e1, Inr st)"
    by (cases "scan_line quiet nm st l") simp
  then show ?case using Cons by (simp add: snd_emit)
qed

lemma test_package_no_header:
  assumes "hasTestDir_path e (path pkg)"
    and "list_all (\<lambda>l. \<not> match_coverage_pct l)
           (proc_stdout e (test_cmd (name pkg) extra_args))"
  shows "snd (test_package e (Some pkg) extra_args cmake_build_type quiet verbose) =
           Inl (BrokenRegexException ''re_coverage_pct'')"
proof -
  let ?run = "scan quiet (name pkg) scan_init (proc_stdout e (test_cmd (name pkg) extra_args))"
  have "snd ?run = Inr scan_init"
    using assms(2) by (simp add: scan_no_header scan_init_def)
  then obtain evs where "?run = (evs, Inr scan_init)" by (cases ?run) simp
  then show ?thesis using assms(1)
    by (simp add: test_package_def snd_emit finish_def scan_init_def)
qed

text \<open>
  C3. The claim: a header followed by a single percentage line fails with
  \<^verbatim>\<open>BrokenRegexException\<close>. The code at \<open>stream_one\<close>: the check of line 120 passes,
  as one value was collected, and \<^verbatim>\<open>pcts[1]\<close> raises \<^verbatim>\<open>IndexError\<close>.
\<close>

theorem one_percentage_raises_IndexError:
  "snd (test_package (env_run stream_one) (Some pkg_a) [''--force-color''] ''Debug''
          True False)
     = Inl IndexError"
  by code_simp

text \<open>
  C4. The claim: after a successful run \<^verbatim>\<open>coverage_total\<close> is the mean of
  \<^verbatim>\<open>coverage_lines\<close> and \<^verbatim>\<open>coverage_functions\<close>, and a repeated header changes none
  of the three. The code at \<open>stream_repeat\<close>: the percentage after the second header
  replaces \<^verbatim>\<open>function_coverage\<close>, so the package ends with 10, 30 and the total 15.
\<close>

theorem repeated_header_overwrites_function_coverage:
  "snd (test_package (env_run stream_repeat) (Some pkg_a) [''--force-color''] ''Debug''
          True False)
     = Inr (15, pkg_a\<lparr>coverage_lines := Some 10, coverage_functions := Some 30,
                      coverage_total := Some 15\<rparr>)"
  by code_simp

text \<open>
  Without a \<^verbatim>\<open>test\<close> directory \<^verbatim>\<open>test_package\<close> returns 0 and leaves the package as it
  was, after the two commands have been started.
\<close>

lemma test_package_no_tests:
  assumes "\<not> hasTestDir_path e (path pkg)"
  shows "test_package e (Some pkg) extra_args cmake_build_type quiet verbose =
           ((if verbose then [Print_testing_name (name pkg)] else []) @
            [Print_testing_obj (name pkg), Subprocess_run (config_cmd cmake_build_type),
             Popen (test_cmd (name pkg) extra_args), Print_no_tests (name pkg)],
            Inr (0, pkg))"
  using assms by (simp add: test_package_def emit_def)

text \<open>The main loop does not call \<^verbatim>\<open>test_package\<close> for a package without the flag.\<close>

lemma test_loop_passes_over:
  "\<not> hasTestDir pkg \<Longrightarrow>
     test_loop e quiet verbose (pkg # rest) visited failed_packages =
       emit [Print_passing_over (name pkg) (path pkg)]
         (test_loop e quiet verbose rest (visited @ [pkg]) failed_packages)"
  by simp

text \<open>
  C5. The claim: for a package without a test directory the run returns 0 and never
  starts the build. The code at a package whose directory has no \<^verbatim>\<open>test\<close> entry:
  \<^verbatim>\<open>test_package\<close> returns 0, after \<^verbatim>\<open>catkin config\<close> has run and \<^verbatim>\<open>catkin build\<close>
  has been started (lines 73 and 74 stand before the check of line 81).
\<close>

theorem test_package_starts_runner_without_tests:
  "test_package env_no_tests (Some pkg_no_tests) [''--force-color''] ''Debug'' False False =
     ([Print_testing_obj ''a'',
       Subprocess_run ''catkin config -DENABLE_COVERAGE_TESTING=ON -DCMAKE_BUILD_TYPE=Debug'',
       Popen ''catkin build a -v --no-status --no-deps --force-color --catkin-make-args a_coverage_report'',
       Print_no_tests ''a''],
      Inr (0, pkg_no_tests))"
  by code_simp

section \<open>The report: unfound names\<close>

lemma list_remove_Pkgs: "list_all is_Pkg packages \<Longrightarrow> list_remove packages s = Inl ValueError"
proof (induction packages)
  case Nil
  then show ?case by simp
next
  case (Cons x xs)
  then show ?case by (cases x) simp_all
qed

text \<open>
  On a list of \<^verbatim>\<open>Package\<close> objects the first unfound name ends the report.
\<close>

lemma remove_unfound_Pkgs:
  "list_all is_Pkg packages \<Longrightarrow>
     remove_unfound (n # ns) packages = ([Stderr_not_found n], Inl ValueError)"
  by (simp add: list_remove_Pkgs emit_def)

text \<open>
  C6. The claim: with \<open>b\<close> unfound, the report removes \<open>b\<close>, prints one diagnostic for it
  and then the summary of \<open>a\<close>. The code, called as the main program calls it (the list
  holds the \<^verbatim>\<open>Package\<close> object of \<open>a\<close>, the unfound list the name \<open>b\<close>): the diagnostic
  is written, \<^verbatim>\<open>packages.remove("b")\<close> raises \<^verbatim>\<open>ValueError\<close>, and no summary is printed.
  The same from the command line \<^verbatim>\<open>a b\<close> in a workspace without \<open>b\<close>.
\<close>

theorem print_results_unfound_raises_ValueError:
  "print_results (env_run []) [Pkg pkg_a_tested] (Some [''b'']) (Some []) None False True
     = ([Stderr_not_found ''b''], Inl ValueError) \<and>
   snd (main env_b_unfound args_a_b) = Inl ValueError"
  by code_simp

section \<open>The report: the weighted total\<close>







text \<open>With no line counted, the first weighted package raises \<^verbatim>\<open>ZeroDivisionError\<close>.\<close>

lemma weigh_zero_lines:
  "snd (weigh verbose 0 (pkg # rest) acc) = Inl ZeroDivisionError"
  by (simp add: snd_emit truediv_def)

text \<open>
  C9. The claim: the weighted sum never raises a division error, also when every
  included package has \<^verbatim>\<open>lineCount\<close> 0. The code at one tested package with
  \<^verbatim>\<open>lineCount\<close> 0 (what \<^verbatim>\<open>count_lines_of_code\<close> returns when \<^verbatim>\<open>cloc\<close> gives no
  number): the summary is printed and line 200 raises \<^verbatim>\<open>ZeroDivisionError\<close>.
\<close>

theorem print_results_zero_lines_raises:
  "print_results (env_run []) [Pkg pkg_no_lines] (Some []) (Some []) None False True =
     ([Print_summary ''a'' ''/ws/src/a'' (Some 85) (Some 90) (Some (175 / 2))],
      Inl ZeroDivisionError)"
  by code_simp

section \<open>The report: the threshold\<close>

lemma summarize_nonneg:
  "summarize packages totallines valid = (evs, Inr (totallines', valid')) \<Longrightarrow>
   list_all nonneg_coverage packages \<Longrightarrow> list_all (\<lambda>p. 0 \<le> cov p) valid \<Longrightarrow>
   list_all (\<lambda>p. 0 \<le> cov p) valid'"
proof (induction packages totallines valid arbitrary: evs rule: summarize.induct)
  case (1 totallines valid_packages)
  then show ?case by simp
next
  case (2 s rest totallines valid_packages)
  then show ?case by simp
next
  case (3 pkg rest totallines valid_packages)
  show ?case
  proof (cases "truthy (coverage_total pkg)")
    case True
    obtain evs' where "summarize rest (totallines + lineCount pkg) (valid_packages @ [pkg]) =
        (evs', Inr (totallines', valid'))"
      using "3.prems"(1) True
      by (cases "summarize rest (totallines + lineCount pkg) (valid_packages @ [pkg])")
         (simp add: emit_def)
    then show ?thesis using "3.IH"(2) True "3.prems"(2,3) by simp
  next
    case False
    obtain evs' where
      "summarize rest totallines valid_packages = (evs', Inr (totallines', valid'))"
      using "3.prems"(1) False
      by (cases "summarize rest totallines valid_packages") (simp add: emit_def)
    then show ?thesis using "3.IH"(1) False "3.prems"(2,3) by simp
  qed
qed

lemma weigh_nonneg:
  "list_all (\<lambda>p. 0 \<le> cov p) valid \<Longrightarrow> 0 \<le> acc \<Longrightarrow>
   weigh verbose totallines valid acc = (evs, Inr w) \<Longrightarrow> 0 \<le> w"
proof (induction valid arbitrary: acc evs)
  case Nil
  then show ?case by simp
next
  case (Cons p ps)
  have nz: "totallines \<noteq> 0"
    using Cons.prems(3) by (auto simp: emit_def truediv_def split: if_splits)
  obtain c where c: "coverage_total p = Some c"
    using Cons.prems(3) nz by (cases "coverage_total p") (auto simp: emit_def truediv_def)
  have c0: "0 \<le> c" using Cons.prems(1) c by (simp add: cov_def)
  let ?acc = "acc + of_nat (lineCount p) / of_nat totallines * c"
  obtain evs' where r: "weigh verbose totallines ps ?acc = (evs', Inr w)"
    using Cons.prems(3) nz c
    by (cases "weigh verbose totallines ps ?acc") (simp add: emit_def truediv_def)
  have "0 \<le> ?acc" using Cons.prems(2) c0 by simp
  then show ?case using Cons.IH [OF _ _ r] Cons.prems(1) by simp
qed

lemma weighted_total_nonneg:
  assumes "weighted_total verbose packages = (evs, Inr w)"
    and "list_all nonneg_coverage packages"
  shows "0 \<le> w"
proof -
  obtain e1 r1 where s: "summarize packages 0 [] = (e1, r1)"
    by (cases "summarize packages 0 []")
  show ?thesis
  proof (cases r1)
    case (Inl ex)
    then show ?thesis using assms(1) s by (simp add: weighted_total_def bind_r_def)
  next
    case (Inr tv)
    obtain totallines valid where tv: "tv = (totallines, valid)" by (cases tv)
    have v: "list_all (\<lambda>p. 0 \<le> cov p) valid"
      using summarize_nonneg [of packages 0 "[]" e1 totallines valid] s Inr tv assms(2)
      by simp
    obtain e2 where r2: "weigh verbose totallines valid 0 = (e2, Inr w)"
      using assms(1) s Inr tv
      by (cases "weigh verbose totallines valid 0")
         (simp add: weighted_total_def bind_r_def emit_def)
    show ?thesis by (rule weigh_nonneg [OF v _ r2]) simp
  qed
qed

text \<open>
  C8. Let the report reach the threshold check: the unfound names were removed, the list
  is not empty and the weighted total \<open>w\<close> was computed, from percentages that are not
  negative. With the threshold \<open>t\<close> set, the report exits with the text that states \<open>t\<close>
  exactly when \<open>w < t\<close>, and returns normally otherwise; with no threshold it returns
  normally. In each case the diagnostics, the summaries and the rounded total have been
  printed before. (\<^verbatim>\<open>round(threshold, 2)\<close> of an integer is that integer; an exit with
  a text has status 1.)
\<close>

theorem print_results_threshold:
  assumes "remove_unfound names packages = (ev1, Inr packages')"
    and "packages' \<noteq> []"
    and "weighted_total verbose packages' = (ev2, Inr w)"
    and "list_all nonneg_coverage packages'"
  shows "print_results e packages (Some names) failed (Some t) verbose summaries =
           (ev1 @ ev2 @ [Print_total (round2 w), Popen ''catkin_test_results''] @
              (if verbose then map Print_line (proc_stdout e ''catkin_test_results'') else []),
            if w < of_int t then Inl (SystemExit (Below_threshold t)) else Inr ())
         \<and> print_results e packages (Some names) failed None verbose summaries =
           (ev1 @ ev2 @ [Print_total (round2 w), Popen ''catkin_test_results''] @
              (if verbose then map Print_line (proc_stdout e ''catkin_test_results'') else []),
            Inr ())"
proof -
  have w0: "0 \<le> w" using assms(3,4) by (rule weighted_total_nonneg)
  have "w < of_int t \<Longrightarrow> t \<noteq> 0" using w0 by auto
  then have ct: "check_threshold (Some t) w =
      ([], if w < of_int t then Inl (SystemExit (Below_threshold t)) else Inr ())"
    by (auto simp: check_threshold_def)
  have cn: "check_threshold None w = ([], Inr ())" by (simp add: check_threshold_def)
  show ?thesis
    using assms(1,2,3) ct cn by (simp add: print_results_def bind_r_def emit_def)
qed

theorem print_results_threshold_witness:
  "print_results (env_run []) [Pkg pkg_100_80, Pkg pkg_300_40] (Some []) (Some []) (Some 60)
     False True =
     ([Print_summary ''p'' ''/ws/src/p'' (Some 70) (Some 90) (Some 80),
       Print_summary ''q'' ''/ws/src/q'' (Some 30) (Some 50) (Some 40),
       Print_total 50, Popen ''catkin_test_results''],
      Inl (SystemExit (Below_threshold 60))) \<and>
   print_results (env_run []) [Pkg pkg_100_80, Pkg pkg_300_40] (Some []) (Some []) (Some 40)
     False True =
     ([Print_summary ''p'' ''/ws/src/p'' (Some 70) (Some 90) (Some 80),
       Print_summary ''q'' ''/ws/src/q'' (Some 30) (Some 50) (Some 40),
       Print_total 50, Popen ''catkin_test_results''],
      Inr ()) \<and>
   print_results (env_run []) [Pkg pkg_100_80, Pkg pkg_300_40] (Some []) (Some []) None
     False True =
     ([Print_summary ''p'' ''/ws/src/p'' (Some 70) (Some 90) (Some 80),
       Print_summary ''q'' ''/ws/src/q'' (Some 30) (Some 50) (Some 40),
       Print_total 50, Popen ''catkin_test_results''],
      Inr ())"
proof -
  let ?ps = "[Pkg pkg_100_80, Pkg pkg_300_40]"
  let ?evs = "[Print_summary ''p'' ''/ws/src/p'' (Some 70) (Some 90) (Some 80),
               Print_summary ''q'' ''/ws/src/q'' (Some 30) (Some 50) (Some 40)]"
  have h1: "remove_unfound [] ?ps = ([], Inr ?ps)" by simp
  have h2: "?ps \<noteq> []" by simp
  have h3: "weighted_total False ?ps = (?evs, Inr 50)" by code_simp
  have h4: "list_all nonneg_coverage ?ps" by code_simp
  have r: "round2 50 = 50" by code_simp
  note t = print_results_threshold [OF h1 h2 h3 h4, of "env_run []" "Some []" _ True]
  show ?thesis using t [of 60] t [of 40] r by simp
qed

section \<open>A result of zero counts as no result\<close>

text \<open>
  C10. A coverage of exactly 0.0 is handled as if there were no result. In the main loop,
  when \<^verbatim>\<open>test_package\<close> returns 0 for a package with a test directory, the program
  exits with the text \<^verbatim>\<open>no coverage data obtained\<close> for that package. In the report,
  a package whose \<^verbatim>\<open>coverage_total\<close> is 0.0 is printed as unavailable, and neither
  \<^verbatim>\<open>totallines\<close> nor \<^verbatim>\<open>valid_packages\<close> takes it up.
\<close>

theorem zero_coverage_is_no_result:
  "(hasTestDir pkg \<and>
    test_package e (Some pkg) [''--force-color''] ''Debug'' quiet verbose = (evs, Inr (0, pkg'))
      \<longrightarrow> test_loop e quiet verbose (pkg # rest) visited failed_packages =
            (evs, Inl (SystemExit (No_coverage_obtained (name pkg)))))
   \<and> (coverage_total p = Some 0
      \<longrightarrow> summarize (Pkg p # ps) totallines valid_packages =
            emit [Print_unavailable (name p) (path p)] (summarize ps totallines valid_packages))"
  by (simp add: truthy_def)

theorem zero_coverage_is_no_result_witness:
  "hasTestDir pkg_a \<and>
   snd (test_package (env_run stream_zero) (Some pkg_a) [''--force-color''] ''Debug'' True False)
     = Inr (0, pkg_a_zero) \<and>
   snd (test_loop (env_run stream_zero) True False [pkg_a] [] [])
     = Inl (SystemExit (No_coverage_obtained ''a'')) \<and>
   snd (main (env_run stream_zero) args_a) = Inl (SystemExit (No_coverage_obtained ''a'')) \<and>
   coverage_total pkg_a_zero = Some 0 \<and>
   summarize [Pkg pkg_a_zero, Pkg pkg_100_50] 0 [] =
     ([Print_unavailable ''a'' ''/ws/src/a'',
       Print_summary ''h'' ''/ws/src/h'' (Some 40) (Some 60) (Some 50)],
      Inr (100, [pkg_100_50]))"
proof -
  let ?tp = "test_package (env_run stream_zero) (Some pkg_a) [''--force-color''] ''Debug''
               True False"
  have a1: "hasTestDir pkg_a" by code_simp
  have a2: "snd ?tp = Inr (0, pkg_a_zero)" by code_simp
  then have a2': "?tp = (fst ?tp, Inr (0, pkg_a_zero))" by (metis prod.collapse)
  have b1: "coverage_total pkg_a_zero = Some 0" by code_simp
  have nm: "name pkg_a = ''a''" by code_simp
  have m: "snd (main (env_run stream_zero) args_a)
             = Inl (SystemExit (No_coverage_obtained ''a''))"
    by code_simp
  have r: "emit [Print_unavailable (name pkg_a_zero) (path pkg_a_zero)]
             (summarize [Pkg pkg_100_50] 0 []) =
           ([Print_unavailable ''a'' ''/ws/src/a'',
             Print_summary ''h'' ''/ws/src/h'' (Some 40) (Some 60) (Some 50)],
            Inr (100, [pkg_100_50]))"
    by code_simp
  note t = zero_coverage_is_no_result [of pkg_a "env_run stream_zero" True False "fst ?tp"
             pkg_a_zero "[]" "[]" "[]" pkg_a_zero "[Pkg pkg_100_50]" 0 "[]"]
  have c1: "test_loop (env_run stream_zero) True False [pkg_a] [] [] =
              (fst ?tp, Inl (SystemExit (No_coverage_obtained (name pkg_a))))"
    using t a1 a2' by blast
  have c2: "summarize [Pkg pkg_a_zero, Pkg pkg_100_50] 0 [] =
              emit [Print_unavailable (name pkg_a_zero) (path pkg_a_zero)]
                (summarize [Pkg pkg_100_50] 0 [])"
    using t b1 by blast
  show ?thesis using a1 a2 b1 m c1 c2 r nm by simp
qed

end
